theory Spec2Isabelle
  imports Main
begin

section \<open>Data model of the product service\<close>

text \<open>
  The development embeds \<^verbatim>\<open>server/src/modules/product/product.services.ts\<close>:
  the methods \<^verbatim>\<open>create\<close>, \<^verbatim>\<open>read\<close>, \<^verbatim>\<open>bulkDelete\<close> and
  \<^verbatim>\<open>addToStock\<close> of the class \<^verbatim>\<open>ProductServices\<close>.

  Identifiers are MongoDB object ids, kept as strings. JavaScript numbers are modelled as
  unbounded integers: stock levels and prices are whole amounts, on which the arithmetic
  of the source (\<^verbatim>\<open>$inc\<close> and \<^verbatim>\<open>*\<close>) is exact.
\<close>

type_synonym objectId = string

text \<open>
  The payload type \<^verbatim>\<open>IProduct\<close>. Every field may be absent at run time (the source
  deletes keys and tests them for truthiness), hence the options.
\<close>

record IProduct =
  name :: "string option"
  price :: "int option"
  stock :: "int option"
  seller :: "objectId option"
  category :: "objectId option"
  brand :: "objectId option"
  user :: "objectId option"

text \<open>A stored product document: the payload after the schema was applied, with its id.\<close>

record ProductDoc =
  doc_id :: objectId
  doc_name :: string
  doc_price :: int
  doc_stock :: int
  doc_seller :: objectId
  doc_category :: "objectId option"
  doc_brand :: "objectId option"
  doc_user :: objectId

record Seller =
  seller_id :: objectId
  seller_name :: string

text \<open>The object literal handed to \<^verbatim>\<open>Purchase.create\<close> (lines 53-62 and 177-186).\<close>

record Purchase =
  pur_user :: objectId
  pur_seller :: objectId
  product :: objectId
  sellerName :: string
  productName :: string
  quantity :: int
  unitPrice :: int
  totalPrice :: int

text \<open>The payload of \<^verbatim>\<open>addToStock\<close>: \<^verbatim>\<open>Pick<IProduct, 'seller' | 'stock'>\<close>.\<close>

record StockPayload =
  sp_seller :: objectId
  sp_stock :: int

text \<open>
  The committed contents of the three collections the service touches. A collection is
  the list of its documents in insertion order.
\<close>

record db =
  products :: "ProductDoc list"
  purchases :: "Purchase list"
  sellers :: "Seller list"

text \<open>
  Errors are values. \<^verbatim>\<open>CustomError\<close> carries the HTTP status code and the message;
  \<open>MongoError\<close> stands for whatever the driver throws, of which the source only reads
  the message.
\<close>

datatype error = CustomError nat string | MongoError string

fun message :: "error \<Rightarrow> string" where
  "message (CustomError c m) = m"
| "message (MongoError m) = m"

text \<open>
  The storage engine is an external collaborator. What it decides on its own is a
  parameter of every operation: the object id it generates for an inserted product, and,
  for each request sent to it, whether the request fails and with which message.
\<close>

record engine =
  newObjectId :: objectId
  sellerFindError :: "string option"
  productWriteError :: "string option"
  purchaseWriteError :: "string option"
  commitError :: "string option"
  deleteError :: "string option"

definition noFaults :: "objectId \<Rightarrow> engine" where
  "noFaults i = \<lparr>newObjectId = i, sellerFindError = None, productWriteError = None,
     purchaseWriteError = None, commitError = None, deleteError = None\<rparr>"

section \<open>Requests to the storage engine\<close>

text \<open>\<^verbatim>\<open>Seller.findById(id)\<close>: the seller with that id, or null.\<close>

definition findSeller :: "objectId option \<Rightarrow> engine \<Rightarrow> db \<Rightarrow> error + Seller option" where
  "findSeller i eng d =
     (case sellerFindError eng of
        Some m \<Rightarrow> Inl (MongoError m)
      | None \<Rightarrow>
          (case i of
             None \<Rightarrow> Inr None
           | Some s \<Rightarrow> Inr (find (\<lambda>x. seller_id x = s) (sellers d))))"

text \<open>
  Modelled from the spec: the Product schema of \<^verbatim>\<open>product.model.ts\<close>, which is not
  part of the sources at hand. Name, price and seller are required, the name is non-empty,
  the price is positive, stock defaults to 0 when unset and is non-negative, category and
  brand are optional, and the owning user is stored. A payload that violates one of these
  yields no document: validation rejects it.
\<close>

definition applySchema :: "objectId \<Rightarrow> IProduct \<Rightarrow> ProductDoc option" where
  "applySchema i payload =
     (case (name payload, price payload, seller payload, user payload) of
        (Some n, Some p, Some s, Some u) \<Rightarrow>
          (let k = (case stock payload of None \<Rightarrow> 0 | Some k \<Rightarrow> k) in
           if n \<noteq> [] \<and> 0 < p \<and> 0 \<le> k
           then Some \<lparr>doc_id = i, doc_name = n, doc_price = p, doc_stock = k,
                  doc_seller = s, doc_category = category payload,
                  doc_brand = brand payload, doc_user = u\<rparr>
           else None)
      | _ \<Rightarrow> None)"

text \<open>
  \<^verbatim>\<open>this.model.create([payload], { session })\<close>: the document is built by the schema,
  receives the generated id and is inserted; the unique index on the id rejects a
  duplicate. Called on a one-element array, it resolves to the one-element array of the
  created document, so the result here is that document (\<^verbatim>\<open>product[0]\<close> in the
  source) and the session's view of the collections.
\<close>

definition modelCreate :: "IProduct \<Rightarrow> engine \<Rightarrow> db \<Rightarrow> error + (ProductDoc \<times> db)" where
  "modelCreate payload eng d =
     (case productWriteError eng of
        Some m \<Rightarrow> Inl (MongoError m)
      | None \<Rightarrow>
          (case applySchema (newObjectId eng) payload of
             None \<Rightarrow> Inl (MongoError ''Product validation failed'')
           | Some doc \<Rightarrow>
               if doc_id doc \<in> set (map doc_id (products d))
               then Inl (MongoError ''E11000 duplicate key error'')
               else Inr (doc, d\<lparr>products := products d @ [doc]\<rparr>)))"

text \<open>\<^verbatim>\<open>Purchase.create([entry], { session })\<close>: the entry is appended to the ledger.\<close>

definition purchaseCreate :: "Purchase \<Rightarrow> engine \<Rightarrow> db \<Rightarrow> error + db" where
  "purchaseCreate entry eng d =
     (case purchaseWriteError eng of
        Some m \<Rightarrow> Inl (MongoError m)
      | None \<Rightarrow> Inr (d\<lparr>purchases := purchases d @ [entry]\<rparr>))"

text \<open>\<^verbatim>\<open>session.commitTransaction()\<close>: the session's view becomes the committed one.\<close>

definition commitTransaction :: "engine \<Rightarrow> db \<Rightarrow> error + db" where
  "commitTransaction eng d =
     (case commitError eng of Some m \<Rightarrow> Inl (MongoError m) | None \<Rightarrow> Inr d)"

text \<open>
  The update \<^verbatim>\<open>{ $inc: { stock: n } }\<close> applied to the first document with the
  given id.
\<close>

fun incStock :: "objectId \<Rightarrow> int \<Rightarrow> ProductDoc list \<Rightarrow> ProductDoc list" where
  "incStock i n [] = []"
| "incStock i n (p # ps) =
     (if doc_id p = i then p\<lparr>doc_stock := doc_stock p + n\<rparr> # ps
      else p # incStock i n ps)"

text \<open>
  \<^verbatim>\<open>this.model.findByIdAndUpdate(id, { $inc: { stock: n } }, { session })\<close>. The call
  passes neither \<^verbatim>\<open>new: true\<close> nor \<^verbatim>\<open>returnDocument: 'after'\<close>, so Mongoose resolves
  to the document as it was before the update was applied, or to null when no document
  has the id.
\<close>

definition findByIdAndUpdate ::
  "objectId \<Rightarrow> int \<Rightarrow> engine \<Rightarrow> db \<Rightarrow> error + (ProductDoc option \<times> db)" where
  "findByIdAndUpdate i n eng d =
     (case productWriteError eng of
        Some m \<Rightarrow> Inl (MongoError m)
      | None \<Rightarrow>
          (case find (\<lambda>p. doc_id p = i) (products d) of
             None \<Rightarrow> Inr (None, d)
           | Some p \<Rightarrow> Inr (Some p, d\<lparr>products := incStock i n (products d)\<rparr>)))"

section \<open>The service methods\<close>

subsection \<open>create\<close>

text \<open>
  Lines 24-28: every key whose value is the empty string is deleted. Only the string
  valued fields can hold the empty string.
\<close>

definition dropEmpty :: "string option \<Rightarrow> string option" where
  "dropEmpty v = (if v = Some '''' then None else v)"

definition removeEmptyFields :: "IProduct \<Rightarrow> IProduct" where
  "removeEmptyFields payload =
     payload\<lparr>name := dropEmpty (name payload), seller := dropEmpty (seller payload),
       category := dropEmpty (category payload), brand := dropEmpty (brand payload),
       user := dropEmpty (user payload)\<rparr>"

text \<open>
  The truthiness test \<^verbatim>\<open>!v\<close> of line 31: an absent field and the empty string are
  falsy, and so is the number 0.
\<close>

definition falsyStr :: "string option \<Rightarrow> bool" where
  "falsyStr v = (case v of None \<Rightarrow> True | Some s \<Rightarrow> s = [])"

definition falsyNum :: "int option \<Rightarrow> bool" where
  "falsyNum v = (case v of None \<Rightarrow> True | Some n \<Rightarrow> n = 0)"

definition missingRequired :: "IProduct \<Rightarrow> bool" where
  "missingRequired payload =
     (falsyStr (name payload) \<or> falsyNum (price payload) \<or> falsyStr (seller payload))"

text \<open>
  The body of the \<^verbatim>\<open>try\<close> block, lines 39-68. An \<open>Inl\<close> is the exception that reaches
  the \<^verbatim>\<open>catch\<close>; an \<open>Inr\<close> is the returned array with the committed collections.
\<close>

definition createTransaction ::
  "IProduct \<Rightarrow> objectId \<Rightarrow> engine \<Rightarrow> db \<Rightarrow> error + (ProductDoc list \<times> db)" where
  "createTransaction payload userId eng d =
     (case findSeller (seller payload) eng d of
        Inl e \<Rightarrow> Inl e
      | Inr None \<Rightarrow> Inl (CustomError 400 ''Invalid seller ID provided'')
      | Inr (Some s) \<Rightarrow>
          (case modelCreate payload eng d of
             Inl e \<Rightarrow> Inl e
           | Inr (p0, d1) \<Rightarrow>
               (case purchaseCreate
                   \<lparr>pur_user = userId, pur_seller = doc_seller p0, product = doc_id p0,
                    sellerName = seller_name s, productName = doc_name p0,
                    quantity = doc_stock p0, unitPrice = doc_price p0,
                    totalPrice = doc_stock p0 * doc_price p0\<rparr> eng d1 of
                  Inl e \<Rightarrow> Inl e
                | Inr d2 \<Rightarrow>
                    (case commitTransaction eng d2 of
                       Inl e \<Rightarrow> Inl e
                     | Inr d3 \<Rightarrow> Inr ([p0], d3)))))"

text \<open>
  The whole method. The \<^verbatim>\<open>catch\<close> aborts the transaction, which leaves the
  committed collections as they were, and throws a \<^verbatim>\<open>CustomError\<close> with status 400
  whose message wraps that of the caught exception.
\<close>

definition create :: "IProduct \<Rightarrow> objectId \<Rightarrow> engine \<Rightarrow> db \<Rightarrow> (error + ProductDoc list) \<times> db" where
  "create payload0 userId eng d =
     (let payload = removeEmptyFields payload0 in
      if missingRequired payload
      then (Inl (CustomError 400 ''Missing required fields: name, price, or seller''), d)
      else
        (case createTransaction (payload\<lparr>user := Some userId\<rparr>) userId eng d of
           Inl e \<Rightarrow> (Inl (CustomError 400 (''Product create failed: '' @ message e)), d)
         | Inr (created, d') \<Rightarrow> (Inr created, d')))"

subsection \<open>read\<close>

text \<open>
  Modelled from the spec: \<^verbatim>\<open>BaseServices._isExists\<close> is inherited from a class that is
  not part of the sources at hand; it is the existence check by id of the generic
  plumbing, which fails with a not-found error when no document has the id.
\<close>

definition isExists :: "objectId \<Rightarrow> db \<Rightarrow> error option" where
  "isExists i d =
     (case find (\<lambda>p. doc_id p = i) (products d) of
        None \<Rightarrow> Some (CustomError 404 ''Product not found'')
      | Some p \<Rightarrow> None)"

text \<open>Lines 137-140: \<^verbatim>\<open>findOne({ user, _id })\<close> after the existence check.\<close>

definition read :: "objectId \<Rightarrow> objectId \<Rightarrow> db \<Rightarrow> error + ProductDoc option" where
  "read i userId d =
     (case isExists i d of
        Some e \<Rightarrow> Inl e
      | None \<Rightarrow> Inr (find (\<lambda>p. doc_user p = userId \<and> doc_id p = i) (products d)))"

subsection \<open>bulkDelete\<close>

text \<open>
  Lines 145-149: \<^verbatim>\<open>deleteMany({ _id: { $in: data } })\<close> on the product collection,
  outside any transaction. The result is the number of deleted documents.
\<close>

definition bulkDelete :: "objectId list \<Rightarrow> engine \<Rightarrow> db \<Rightarrow> (error + nat) \<times> db" where
  "bulkDelete payload eng d =
     (case deleteError eng of
        Some m \<Rightarrow> (Inl (MongoError m), d)
      | None \<Rightarrow>
          (Inr (length (filter (\<lambda>p. doc_id p \<in> set payload) (products d))),
           d\<lparr>products := filter (\<lambda>p. doc_id p \<notin> set payload) (products d)\<rparr>))"

subsection \<open>addToStock\<close>

text \<open>The body of the \<^verbatim>\<open>try\<close> block, lines 158-192.\<close>

definition addToStockTransaction ::
  "objectId \<Rightarrow> StockPayload \<Rightarrow> objectId \<Rightarrow> engine \<Rightarrow> db \<Rightarrow> error + (ProductDoc \<times> db)" where
  "addToStockTransaction i payload userId eng d =
     (case findSeller (Some (sp_seller payload)) eng d of
        Inl e \<Rightarrow> Inl e
      | Inr None \<Rightarrow> Inl (CustomError 400 ''Invalid seller ID provided'')
      | Inr (Some s) \<Rightarrow>
          (case findByIdAndUpdate i (sp_stock payload) eng d of
             Inl e \<Rightarrow> Inl e
           | Inr (None, d1) \<Rightarrow> Inl (CustomError 404 ''Product not found'')
           | Inr (Some p, d1) \<Rightarrow>
               (case purchaseCreate
                   \<lparr>pur_user = userId, pur_seller = doc_seller p, product = doc_id p,
                    sellerName = seller_name s, productName = doc_name p,
                    quantity = sp_stock payload, unitPrice = doc_price p,
                    totalPrice = sp_stock payload * doc_price p\<rparr> eng d1 of
                  Inl e \<Rightarrow> Inl e
                | Inr d2 \<Rightarrow>
                    (case commitTransaction eng d2 of
                       Inl e \<Rightarrow> Inl e
                     | Inr d3 \<Rightarrow> Inr (p, d3)))))"

text \<open>
  The whole method: as in \<open>create\<close>, the \<^verbatim>\<open>catch\<close> aborts and throws a
  \<^verbatim>\<open>CustomError\<close> with status 400 wrapping the message of whatever was caught.
\<close>

definition addToStock ::
  "objectId \<Rightarrow> StockPayload \<Rightarrow> objectId \<Rightarrow> engine \<Rightarrow> db \<Rightarrow> (error + ProductDoc) \<times> db" where
  "addToStock i payload userId eng d =
     (case addToStockTransaction i payload userId eng d of
        Inl e \<Rightarrow> (Inl (CustomError 400 (''Stock update failed: '' @ message e)), d)
      | Inr (p, d') \<Rightarrow> (Inr p, d'))"

section \<open>Vocabulary of the properties\<close>

text \<open>The engine carries out every request of a transaction.\<close>

definition healthy :: "engine \<Rightarrow> bool" where
  "healthy eng = (sellerFindError eng = None \<and> productWriteError eng = None \<and>
     purchaseWriteError eng = None \<and> commitError eng = None)"

text \<open>A seller reference that is absent or names no stored seller.\<close>

definition unresolved :: "objectId option \<Rightarrow> db \<Rightarrow> bool" where
  "unresolved i d =
     (case i of None \<Rightarrow> True | Some s \<Rightarrow> find (\<lambda>x. seller_id x = s) (sellers d) = None)"

text \<open>
  Sequences of the two stock-affecting operations, each with the engine behaviour it
  meets, and the state they lead to.
\<close>

datatype request =
    CreateProduct IProduct objectId engine
  | AddStock objectId StockPayload objectId engine

fun perform :: "request \<Rightarrow> db \<Rightarrow> db" where
  "perform (CreateProduct payload userId eng) d = snd (create payload userId eng d)"
| "perform (AddStock i payload userId eng) d = snd (addToStock i payload userId eng d)"

definition run :: "request list \<Rightarrow> db \<Rightarrow> db" where
  "run rs d = fold perform rs d"

text \<open>
  The delta of a replenishment is covered by the stock it is applied to: the addressed
  product, if there is one, has at least as much stock as the delta takes away. A creation
  has no delta.
\<close>

definition covered :: "objectId \<Rightarrow> int \<Rightarrow> ProductDoc list \<Rightarrow> bool" where
  "covered i n ps =
     (case find (\<lambda>q. doc_id q = i) ps of None \<Rightarrow> True | Some p \<Rightarrow> 0 \<le> doc_stock p + n)"

fun coveredDelta :: "request \<Rightarrow> db \<Rightarrow> bool" where
  "coveredDelta (CreateProduct payload userId eng) d = True"
| "coveredDelta (AddStock i payload userId eng) d = covered i (sp_stock payload) (products d)"

text \<open>Every replenishment of a sequence is covered in the state in which it is performed.\<close>

fun coveredDeltas :: "request list \<Rightarrow> db \<Rightarrow> bool" where
  "coveredDeltas [] d = True"
| "coveredDeltas (r # rs) d = (coveredDelta r d \<and> coveredDeltas rs (perform r d))"

text \<open>The amounts of a payload that the Product schema accepts.\<close>

definition validAmounts :: "IProduct \<Rightarrow> bool" where
  "validAmounts payload =
     ((case price payload of None \<Rightarrow> False | Some n \<Rightarrow> 0 < n) \<and>
      (case stock payload of None \<Rightarrow> True | Some k \<Rightarrow> 0 \<le> k))"

definition stockInvariant :: "db \<Rightarrow> bool" where
  "stockInvariant d = list_all (\<lambda>p. 0 \<le> doc_stock p) (products d)"

text \<open>
  The data of the examples: the payload
  \<^verbatim>\<open>{name:"Widget", price:10, seller:"S1", stock:5}\<close>, the document it creates, a
  store holding seller S1 only, and the store after the product was created.
\<close>

definition widgetPayload :: IProduct where
  "widgetPayload = \<lparr>name = Some ''Widget'', price = Some 10, stock = Some 5,
     seller = Some ''S1'', category = None, brand = None, user = None\<rparr>"

definition widget :: ProductDoc where
  "widget = \<lparr>doc_id = ''P1'', doc_name = ''Widget'', doc_price = 10, doc_stock = 5,
     doc_seller = ''S1'', doc_category = None, doc_brand = None, doc_user = ''U1''\<rparr>"

definition acme :: Seller where
  "acme = \<lparr>seller_id = ''S1'', seller_name = ''Acme''\<rparr>"

definition emptyStore :: db where
  "emptyStore = \<lparr>products = [], purchases = [], sellers = [acme]\<rparr>"

definition widgetStore :: db where
  "widgetStore = \<lparr>products = [widget],
     purchases = [\<lparr>pur_user = ''U1'', pur_seller = ''S1'', product = ''P1'',
       sellerName = ''Acme'', productName = ''Widget'', quantity = 5, unitPrice = 10,
       totalPrice = 50\<rparr>],
     sellers = [acme]\<rparr>"

section \<open>Auxiliary facts\<close>

lemma find_incStock:
  "find (\<lambda>q. doc_id q = i) ps = Some p \<Longrightarrow>
   find (\<lambda>q. doc_id q = i) (incStock i n ps) = Some (p\<lparr>doc_stock := doc_stock p + n\<rparr>)"
  by (induction ps) (auto split: if_splits)

lemma list_all_incStock:
  "list_all (\<lambda>p. 0 \<le> doc_stock p) ps \<Longrightarrow> covered i n ps \<Longrightarrow>
   list_all (\<lambda>p. 0 \<le> doc_stock p) (incStock i n ps)"
  by (induction ps) (auto simp: covered_def)

lemma incStock_covered:
  "find (\<lambda>q. doc_id q = i) ps = Some p \<Longrightarrow>
   list_all (\<lambda>p. 0 \<le> doc_stock p) (incStock i n ps) \<Longrightarrow> 0 \<le> doc_stock p + n"
  by (induction ps) (auto split: if_splits)

lemma find_owner:
  "find (\<lambda>q. doc_id q = i) ps = Some p \<Longrightarrow> doc_user p = u \<Longrightarrow>
   find (\<lambda>q. doc_user q = u \<and> doc_id q = i) ps = Some p"
  by (induction ps) (auto split: if_splits)

lemma applySchema_fields:
  "applySchema i pl = Some p \<Longrightarrow>
   doc_id p = i \<and> name pl = Some (doc_name p) \<and> price pl = Some (doc_price p) \<and>
   seller pl = Some (doc_seller p) \<and> user pl = Some (doc_user p) \<and>
   doc_stock p = (case stock pl of None \<Rightarrow> 0 | Some k \<Rightarrow> k) \<and>
   0 \<le> doc_stock p \<and> 0 < doc_price p"
  by (auto simp: applySchema_def Let_def split: option.splits if_splits)

lemma unresolved_dropEmpty: "unresolved i d \<Longrightarrow> unresolved (dropEmpty i) d"
  by (simp add: unresolved_def dropEmpty_def)

subsection \<open>The transaction of create\<close>

lemma createTransaction_Inr:
  "createTransaction pl u eng d = Inr (created, d') \<Longrightarrow>
   \<exists>p (s::Seller). created = [p] \<and> applySchema (newObjectId eng) pl = Some p \<and>
     doc_id p \<notin> set (map doc_id (products d)) \<and>
     d' = d\<lparr>products := products d @ [p],
            purchases := purchases d @
              [\<lparr>pur_user = u, pur_seller = doc_seller p, product = doc_id p,
                sellerName = seller_name s, productName = doc_name p,
                quantity = doc_stock p, unitPrice = doc_price p,
                totalPrice = doc_stock p * doc_price p\<rparr>]\<rparr>"
  by (auto simp: createTransaction_def modelCreate_def purchaseCreate_def commitTransaction_def
      split: sum.splits option.splits if_splits)

lemma createTransaction_healthy:
  assumes "\<not> missingRequired pl" and "user pl = Some v" and "\<not> unresolved (seller pl) d"
    and "healthy eng" and "newObjectId eng \<notin> set (map doc_id (products d))"
    and "validAmounts pl"
  shows "\<exists>r. createTransaction pl u eng d = Inr r"
  using assms
  by (auto simp: createTransaction_def findSeller_def modelCreate_def applySchema_def
      purchaseCreate_def commitTransaction_def healthy_def unresolved_def validAmounts_def
      missingRequired_def falsyStr_def falsyNum_def Let_def split: option.splits)

lemma createTransaction_unresolved:
  assumes "unresolved (seller pl) d"
  shows "createTransaction pl u eng d =
    (case sellerFindError eng of
       Some m \<Rightarrow> Inl (MongoError m)
     | None \<Rightarrow> Inl (CustomError 400 ''Invalid seller ID provided''))"
  using assms
  by (simp add: createTransaction_def findSeller_def unresolved_def split: option.splits)

subsection \<open>The two branches of create\<close>

lemma create_missing:
  "missingRequired (removeEmptyFields payload) \<Longrightarrow>
   create payload userId eng d =
     (Inl (CustomError 400 ''Missing required fields: name, price, or seller''), d)"
  by (simp add: create_def)

lemma create_proceeds:
  "\<not> missingRequired (removeEmptyFields payload) \<Longrightarrow>
   create payload userId eng d =
     (case createTransaction ((removeEmptyFields payload)\<lparr>user := Some userId\<rparr>) userId eng d of
        Inl e \<Rightarrow> (Inl (CustomError 400 (''Product create failed: '' @ message e)), d)
      | Inr (created, d') \<Rightarrow> (Inr created, d'))"
  by (simp add: create_def)

lemma create_proceeds_other_error:
  "\<not> missingRequired (removeEmptyFields payload) \<Longrightarrow>
   fst (create payload userId eng d) \<noteq>
     Inl (CustomError 400 ''Missing required fields: name, price, or seller'')"
  by (simp add: create_proceeds split: sum.splits prod.splits)

lemma missingRequired_iff:
  "missingRequired (removeEmptyFields payload) \<longleftrightarrow>
     name (removeEmptyFields payload) = None \<or> price (removeEmptyFields payload) = None \<or>
     price (removeEmptyFields payload) = Some 0 \<or> seller (removeEmptyFields payload) = None"
  by (auto simp: missingRequired_def removeEmptyFields_def dropEmpty_def falsyStr_def
      falsyNum_def split: option.splits)

lemma create_Inl: "create payload userId eng d = (Inl e, d') \<Longrightarrow> d' = d"
  by (auto simp: create_def Let_def split: if_splits sum.splits)

lemma create_Inr:
  assumes "create payload userId eng d = (Inr created, d')"
  shows "\<exists>p (s::Seller). created = [p] \<and>
     applySchema (newObjectId eng) ((removeEmptyFields payload)\<lparr>user := Some userId\<rparr>) = Some p \<and>
     doc_id p \<notin> set (map doc_id (products d)) \<and>
     d' = d\<lparr>products := products d @ [p],
            purchases := purchases d @
              [\<lparr>pur_user = userId, pur_seller = doc_seller p, product = doc_id p,
                sellerName = seller_name s, productName = doc_name p,
                quantity = doc_stock p, unitPrice = doc_price p,
                totalPrice = doc_stock p * doc_price p\<rparr>]\<rparr>"
proof -
  from assms have "createTransaction ((removeEmptyFields payload)\<lparr>user := Some userId\<rparr>)
      userId eng d = Inr (created, d')"
    by (auto simp: create_def Let_def split: if_splits sum.splits)
  from createTransaction_Inr [OF this] show ?thesis by blast
qed

lemma create_succeeds:
  assumes "\<not> missingRequired (removeEmptyFields payload)"
    and "\<not> unresolved (seller payload) d" and "healthy eng"
    and "newObjectId eng \<notin> set (map doc_id (products d))"
    and "validAmounts payload"
  shows "\<exists>created. fst (create payload userId eng d) = Inr created"
proof -
  let ?pl = "(removeEmptyFields payload)\<lparr>user := Some userId\<rparr>"
  have m: "\<not> missingRequired ?pl"
    using assms(1) by (simp add: missingRequired_def)
  have "seller ?pl = seller payload"
    using assms(1)
    by (auto simp: missingRequired_def removeEmptyFields_def dropEmpty_def falsyStr_def
        split: if_splits)
  with assms(2) have s: "\<not> unresolved (seller ?pl) d" by simp
  have u: "user ?pl = Some userId" by simp
  have v: "validAmounts ?pl"
    using assms(5) by (simp add: validAmounts_def removeEmptyFields_def)
  from createTransaction_healthy [OF m u s assms(3,4) v, of userId]
  obtain r where "createTransaction ?pl userId eng d = Inr r" ..
  with assms(1) show ?thesis
    by (cases r) (simp add: create_proceeds)
qed

subsection \<open>The transaction of addToStock\<close>

lemma addToStockTransaction_Inr:
  assumes "addToStockTransaction i pl u eng d = Inr (r, d')"
  shows "\<exists>s::Seller. find (\<lambda>q. doc_id q = i) (products d) = Some r \<and>
     find (\<lambda>x. seller_id x = sp_seller pl) (sellers d) = Some s \<and> healthy eng \<and>
     d' = d\<lparr>products := incStock i (sp_stock pl) (products d),
            purchases := purchases d @
              [\<lparr>pur_user = u, pur_seller = doc_seller r, product = doc_id r,
                sellerName = seller_name s, productName = doc_name r,
                quantity = sp_stock pl, unitPrice = doc_price r,
                totalPrice = sp_stock pl * doc_price r\<rparr>]\<rparr>"
  using assms
  by (auto simp: addToStockTransaction_def findSeller_def findByIdAndUpdate_def
      purchaseCreate_def commitTransaction_def healthy_def
      split: sum.splits option.splits if_splits)

lemma addToStockTransaction_healthy:
  assumes "find (\<lambda>q. doc_id q = i) (products d) = Some p"
    and "find (\<lambda>x. seller_id x = sp_seller pl) (sellers d) = Some s"
    and "healthy eng"
  shows "addToStockTransaction i pl u eng d =
     Inr (p, d\<lparr>products := incStock i (sp_stock pl) (products d),
            purchases := purchases d @
              [\<lparr>pur_user = u, pur_seller = doc_seller p, product = doc_id p,
                sellerName = seller_name s, productName = doc_name p,
                quantity = sp_stock pl, unitPrice = doc_price p,
                totalPrice = sp_stock pl * doc_price p\<rparr>]\<rparr>)"
  using assms
  by (simp add: addToStockTransaction_def findSeller_def findByIdAndUpdate_def
      purchaseCreate_def commitTransaction_def healthy_def)

lemma addToStockTransaction_Inl_user:
  "addToStockTransaction i pl u1 eng d = Inl e \<Longrightarrow>
   addToStockTransaction i pl u2 eng d = Inl e"
  by (simp add: addToStockTransaction_def findByIdAndUpdate_def
      purchaseCreate_def commitTransaction_def
      split: sum.splits option.splits prod.splits)

lemma addToStock_Inl: "addToStock i pl u eng d = (Inl e, d') \<Longrightarrow> d' = d"
  by (auto simp: addToStock_def split: sum.splits)

lemma addToStock_Inr:
  "addToStock i pl u eng d = (Inr r, d') \<Longrightarrow> addToStockTransaction i pl u eng d = Inr (r, d')"
  by (auto simp: addToStock_def split: sum.splits)

lemma addToStock_missing_product:
  assumes "find (\<lambda>q. doc_id q = i) (products d) = None"
    and "find (\<lambda>x. seller_id x = sp_seller pl) (sellers d) = Some s"
    and "sellerFindError eng = None" and "productWriteError eng = None"
  shows "addToStock i pl u eng d =
    (Inl (CustomError 400 ''Stock update failed: Product not found''), d)"
  using assms
  by (simp add: addToStock_def addToStockTransaction_def findSeller_def findByIdAndUpdate_def)

subsection \<open>The owner-scoped read\<close>

lemma read_owner:
  assumes "find (\<lambda>q. doc_id q = i) (products d) = Some p"
  shows "read i u d = Inr (Some p) \<longleftrightarrow> doc_user p = u"
proof
  assume "read i u d = Inr (Some p)"
  with assms have "find (\<lambda>q. doc_user q = u \<and> doc_id q = i) (products d) = Some p"
    by (simp add: read_def isExists_def)
  then show "doc_user p = u" by (auto simp: find_Some_iff)
next
  assume "doc_user p = u"
  from find_owner [OF assms this] assms show "read i u d = Inr (Some p)"
    by (simp add: read_def isExists_def)
qed

subsection \<open>Stock levels along a run\<close>

lemma stockInvariant_create:
  assumes "stockInvariant d"
  shows "stockInvariant (snd (create payload userId eng d))"
proof (cases "create payload userId eng d")
  case (Pair r d')
  show ?thesis
  proof (cases r)
    case (Inl e)
    with Pair create_Inl [of payload userId eng d e d'] assms show ?thesis by simp
  next
    case (Inr created)
    from create_Inr [OF Pair [unfolded Inr]] obtain p where
      a: "applySchema (newObjectId eng) ((removeEmptyFields payload)\<lparr>user := Some userId\<rparr>) = Some p"
      and d': "products d' = products d @ [p]"
      by auto
    from applySchema_fields [OF a] have "0 \<le> doc_stock p"
      by simp
    with assms show ?thesis by (simp add: Pair d' stockInvariant_def)
  qed
qed

lemma stockInvariant_addToStock:
  assumes "stockInvariant d" and "covered i (sp_stock payload) (products d)"
  shows "stockInvariant (snd (addToStock i payload userId eng d))"
proof (cases "addToStock i payload userId eng d")
  case (Pair r d')
  show ?thesis
  proof (cases r)
    case (Inl e)
    with Pair addToStock_Inl [of i payload userId eng d e d'] assms(1) show ?thesis by simp
  next
    case (Inr p)
    from addToStockTransaction_Inr [OF addToStock_Inr [OF Pair [unfolded Inr]]]
    have "products d' = incStock i (sp_stock payload) (products d)" by auto
    with list_all_incStock [of "products d" i "sp_stock payload"] assms
    show ?thesis by (simp add: Pair stockInvariant_def)
  qed
qed

lemma stockInvariant_addToStock_covered:
  assumes "fst (addToStock i payload userId eng d) = Inr r"
    and "stockInvariant (snd (addToStock i payload userId eng d))"
  shows "covered i (sp_stock payload) (products d)"
proof -
  obtain d' where a: "addToStock i payload userId eng d = (Inr r, d')"
    using assms(1) by (cases "addToStock i payload userId eng d") simp
  from addToStockTransaction_Inr [OF addToStock_Inr [OF a]]
  have f: "find (\<lambda>q. doc_id q = i) (products d) = Some r"
    and d': "products d' = incStock i (sp_stock payload) (products d)"
    by auto
  from assms(2) have "list_all (\<lambda>p. 0 \<le> doc_stock p) (incStock i (sp_stock payload) (products d))"
    by (simp add: a d' stockInvariant_def)
  from incStock_covered [OF f this] f show ?thesis
    by (simp add: covered_def)
qed

lemma stockInvariant_perform:
  "stockInvariant d \<Longrightarrow> coveredDelta r d \<Longrightarrow> stockInvariant (perform r d)"
  by (cases r) (simp_all add: stockInvariant_create stockInvariant_addToStock)

subsection \<open>The examples, evaluated\<close>

lemma create_widget:
  "create widgetPayload ''U1'' (noFaults ''P1'') emptyStore = (Inr [widget], widgetStore)"
  by (simp add: create_def widgetPayload_def removeEmptyFields_def dropEmpty_def
      missingRequired_def falsyStr_def falsyNum_def createTransaction_def findSeller_def
      modelCreate_def applySchema_def purchaseCreate_def commitTransaction_def
      noFaults_def emptyStore_def widgetStore_def widget_def acme_def)

lemma addToStock_widget:
  "addToStock ''P1'' \<lparr>sp_seller = ''S1'', sp_stock = 3\<rparr> ''U1'' (noFaults ''X'') widgetStore =
     (Inr widget,
      widgetStore\<lparr>products := [widget\<lparr>doc_stock := 8\<rparr>],
        purchases := purchases widgetStore @
          [\<lparr>pur_user = ''U1'', pur_seller = ''S1'', product = ''P1'',
            sellerName = ''Acme'', productName = ''Widget'', quantity = 3, unitPrice = 10,
            totalPrice = 30\<rparr>]\<rparr>)"
  by (simp add: addToStock_def addToStockTransaction_def findSeller_def findByIdAndUpdate_def
      purchaseCreate_def commitTransaction_def noFaults_def widgetStore_def widget_def
      acme_def)

section \<open>Creation is all or nothing\<close>

text \<open>
  Claim C1. For every call of create whose payload passes the field validation, either the
  call returns the created product, and the store holds exactly that product and exactly
  one purchase entry more than before, the entry referring to the product with quantity
  equal to the product's stock (0 when the payload sets none), unit price equal to the
  product's price and total price equal to stock times price; or the call fails and the
  store is as it was before, with neither product nor purchase entry. The first alternative
  is the one that occurs when the engine carries out every request, the seller resolves,
  the generated id is new and the schema accepts the amounts (a positive price, and a stock
  that is unset or non-negative).
\<close>

theorem create_all_or_nothing:
  assumes "\<not> missingRequired (removeEmptyFields payload)"
  shows "((\<exists>p q. create payload userId eng d =
             (Inr [p], d\<lparr>products := products d @ [p], purchases := purchases d @ [q]\<rparr>) \<and>
             doc_id p \<notin> set (map doc_id (products d)) \<and>
             doc_stock p = (case stock payload of None \<Rightarrow> 0 | Some k \<Rightarrow> k) \<and>
             price payload = Some (doc_price p) \<and>
             product q = doc_id p \<and>
             quantity q = doc_stock p \<and> unitPrice q = doc_price p \<and>
             totalPrice q = doc_stock p * doc_price p)
          \<or> (\<exists>e. create payload userId eng d = (Inl e, d))) \<and>
         (healthy eng \<and> \<not> unresolved (seller payload) d \<and>
          newObjectId eng \<notin> set (map doc_id (products d)) \<and> validAmounts payload \<longrightarrow>
            (\<exists>created. fst (create payload userId eng d) = Inr created))"
proof
  show "(\<exists>p q. create payload userId eng d =
             (Inr [p], d\<lparr>products := products d @ [p], purchases := purchases d @ [q]\<rparr>) \<and>
             doc_id p \<notin> set (map doc_id (products d)) \<and>
             doc_stock p = (case stock payload of None \<Rightarrow> 0 | Some k \<Rightarrow> k) \<and>
             price payload = Some (doc_price p) \<and>
             product q = doc_id p \<and>
             quantity q = doc_stock p \<and> unitPrice q = doc_price p \<and>
             totalPrice q = doc_stock p * doc_price p)
          \<or> (\<exists>e. create payload userId eng d = (Inl e, d))"
  proof (cases "create payload userId eng d")
    case (Pair r d')
    show ?thesis
    proof (cases r)
      case (Inl e)
      with Pair create_Inl [of payload userId eng d e d'] show ?thesis by simp
    next
      case (Inr created)
      from create_Inr [OF Pair [unfolded Inr]] obtain p and s :: Seller where
        c: "created = [p]" and
        a: "applySchema (newObjectId eng) ((removeEmptyFields payload)\<lparr>user := Some userId\<rparr>)
              = Some p" and
        n: "doc_id p \<notin> set (map doc_id (products d))" and
        d': "d' = d\<lparr>products := products d @ [p],
              purchases := purchases d @
                [\<lparr>pur_user = userId, pur_seller = doc_seller p, product = doc_id p,
                  sellerName = seller_name s, productName = doc_name p,
                  quantity = doc_stock p, unitPrice = doc_price p,
                  totalPrice = doc_stock p * doc_price p\<rparr>]\<rparr>"
        by blast
      from applySchema_fields [OF a]
      have f: "doc_stock p = (case stock payload of None \<Rightarrow> 0 | Some k \<Rightarrow> k)"
        "price payload = Some (doc_price p)"
        by (simp_all add: removeEmptyFields_def)
      show ?thesis
        unfolding Pair Inr c d' using n f by auto
    qed
  qed
next
  show "healthy eng \<and> \<not> unresolved (seller payload) d \<and>
          newObjectId eng \<notin> set (map doc_id (products d)) \<and> validAmounts payload \<longrightarrow>
            (\<exists>created. fst (create payload userId eng d) = Inr created)"
    using create_succeeds [OF assms, of d eng userId] by blast
qed

theorem create_all_or_nothing_witness:
  "\<not> missingRequired (removeEmptyFields widgetPayload) \<and>
   fst (create widgetPayload ''U1'' (noFaults ''P1'') emptyStore) = Inr [widget] \<and>
   snd (create widgetPayload ''U1'' (noFaults ''P1'') emptyStore) = widgetStore"
proof -
  have h: "\<not> missingRequired (removeEmptyFields widgetPayload)"
    by (simp add: widgetPayload_def removeEmptyFields_def dropEmpty_def missingRequired_def
        falsyStr_def falsyNum_def)
  from create_all_or_nothing [OF h, of "''U1''" "noFaults ''P1''" emptyStore] h
  show ?thesis by (simp add: create_widget)
qed

section \<open>Replenishment\<close>

text \<open>
  Claim C2. For every call of addToStock with delta \<open>sp_stock payload\<close> on an existing
  product \<open>p\<close> and a resolvable seller: the call succeeds when the engine carries out every
  request, and whenever it succeeds the committed store differs from the previous one in
  that the product's stock was incremented by the delta, so that the stored stock is the
  prior stock plus the delta, and in that exactly one purchase entry was appended, with the
  delta as quantity, the product's price as unit price and delta times that price as total
  price.
\<close>

theorem addToStock_commits_increment:
  assumes "find (\<lambda>q. doc_id q = i) (products d) = Some p"
    and "find (\<lambda>x. seller_id x = sp_seller payload) (sellers d) = Some s"
  shows "(healthy eng \<longrightarrow> (\<exists>r. fst (addToStock i payload userId eng d) = Inr r)) \<and>
         ((\<exists>r. fst (addToStock i payload userId eng d) = Inr r) \<longrightarrow>
            snd (addToStock i payload userId eng d) =
              d\<lparr>products := incStock i (sp_stock payload) (products d),
                purchases := purchases d @
                  [\<lparr>pur_user = userId, pur_seller = doc_seller p, product = doc_id p,
                    sellerName = seller_name s, productName = doc_name p,
                    quantity = sp_stock payload, unitPrice = doc_price p,
                    totalPrice = sp_stock payload * doc_price p\<rparr>]\<rparr> \<and>
            find (\<lambda>q. doc_id q = i) (products (snd (addToStock i payload userId eng d))) =
              Some (p\<lparr>doc_stock := doc_stock p + sp_stock payload\<rparr>))"
proof -
  have ok: "addToStock i payload userId eng d =
      (Inr p, d\<lparr>products := incStock i (sp_stock payload) (products d),
                purchases := purchases d @
                  [\<lparr>pur_user = userId, pur_seller = doc_seller p, product = doc_id p,
                    sellerName = seller_name s, productName = doc_name p,
                    quantity = sp_stock payload, unitPrice = doc_price p,
                    totalPrice = sp_stock payload * doc_price p\<rparr>]\<rparr>)"
    if "healthy eng"
    using addToStockTransaction_healthy [OF assms that, of userId]
    by (simp add: addToStock_def)
  have conv: "healthy eng" if succ: "fst (addToStock i payload userId eng d) = Inr r" for r
  proof -
    obtain d' where "addToStock i payload userId eng d = (Inr r, d')"
      using succ by (cases "addToStock i payload userId eng d") simp
    from addToStockTransaction_Inr [OF addToStock_Inr [OF this]] show ?thesis by blast
  qed
  from ok conv find_incStock [OF assms(1), of "sp_stock payload"] show ?thesis
    by auto
qed

theorem addToStock_commits_increment_witness:
  "find (\<lambda>q. doc_id q = ''P1'') (products widgetStore) = Some widget \<and>
   find (\<lambda>x. seller_id x = ''S1'') (sellers widgetStore) = Some acme \<and>
   find (\<lambda>q. doc_id q = ''P1'')
     (products (snd (addToStock ''P1'' \<lparr>sp_seller = ''S1'', sp_stock = 3\<rparr> ''U1''
        (noFaults ''X'') widgetStore))) = Some (widget\<lparr>doc_stock := 8\<rparr>) \<and>
   purchases (snd (addToStock ''P1'' \<lparr>sp_seller = ''S1'', sp_stock = 3\<rparr> ''U1''
        (noFaults ''X'') widgetStore)) =
     purchases widgetStore @
       [\<lparr>pur_user = ''U1'', pur_seller = ''S1'', product = ''P1'', sellerName = ''Acme'',
         productName = ''Widget'', quantity = 3, unitPrice = 10, totalPrice = 30\<rparr>]"
proof -
  have p: "find (\<lambda>q. doc_id q = ''P1'') (products widgetStore) = Some widget"
    by (simp add: widgetStore_def widget_def)
  have s: "find (\<lambda>x. seller_id x = sp_seller \<lparr>sp_seller = ''S1'', sp_stock = 3\<rparr>)
      (sellers widgetStore) = Some acme"
    by (simp add: widgetStore_def acme_def)
  have h: "healthy (noFaults ''X'')"
    by (simp add: healthy_def noFaults_def)
  from addToStock_commits_increment [OF p s, of "noFaults ''X''" "''U1''"] h p s
  show ?thesis by (simp add: widgetStore_def widget_def acme_def)
qed

text \<open>
  Claim C3, as stated: the value returned by a successful addToStock is the updated
  product, with stock equal to prior stock plus delta. It fails on the example of the
  specification: adding 3 to the widget with stock 5 returns the widget with stock 5, while
  the stored widget has stock 8.
\<close>

theorem addToStock_returns_updated_counterexample:
  "fst (addToStock ''P1'' \<lparr>sp_seller = ''S1'', sp_stock = 3\<rparr> ''U1'' (noFaults ''X'')
      widgetStore) = Inr widget \<and>
   doc_stock widget = 5 \<and> doc_stock widget \<noteq> 5 + 3"
  by (simp add: addToStock_widget) (simp add: widget_def)

text \<open>
  Claim C3, amended. The value returned by a successful addToStock is the product document
  as it was stored before the increment, so its stock field is the prior stock; the stored
  document is the returned one with the stock incremented by the delta.
\<close>

theorem addToStock_returns_previous:
  assumes "fst (addToStock i payload userId eng d) = Inr r"
  shows "find (\<lambda>q. doc_id q = i) (products d) = Some r \<and>
         find (\<lambda>q. doc_id q = i) (products (snd (addToStock i payload userId eng d))) =
           Some (r\<lparr>doc_stock := doc_stock r + sp_stock payload\<rparr>)"
proof -
  obtain d' where a: "addToStock i payload userId eng d = (Inr r, d')"
    using assms by (cases "addToStock i payload userId eng d") simp
  from addToStockTransaction_Inr [OF addToStock_Inr [OF a]]
  have f: "find (\<lambda>q. doc_id q = i) (products d) = Some r"
    and d': "products d' = incStock i (sp_stock payload) (products d)"
    by auto
  from find_incStock [OF f] show ?thesis by (simp add: a f d')
qed

theorem addToStock_returns_previous_witness:
  "fst (addToStock ''P1'' \<lparr>sp_seller = ''S1'', sp_stock = 3\<rparr> ''U1'' (noFaults ''X'')
      widgetStore) = Inr widget \<and>
   find (\<lambda>q. doc_id q = ''P1'') (products widgetStore) = Some widget \<and>
   find (\<lambda>q. doc_id q = ''P1'')
     (products (snd (addToStock ''P1'' \<lparr>sp_seller = ''S1'', sp_stock = 3\<rparr> ''U1''
        (noFaults ''X'') widgetStore))) = Some (widget\<lparr>doc_stock := 5 + 3\<rparr>)"
proof -
  have h: "fst (addToStock ''P1'' \<lparr>sp_seller = ''S1'', sp_stock = 3\<rparr> ''U1'' (noFaults ''X'')
      widgetStore) = Inr widget"
    by (simp add: addToStock_widget)
  from addToStock_returns_previous [OF h] h show ?thesis
    by (simp add: widget_def)
qed

text \<open>
  Claim C4: addToStock on an id that names no product commits nothing and surfaces a
  not-found error of the 404 class. Evaluated on a store in which seller S1 resolves and no
  product has the id P9: nothing is committed, and the error that reaches the caller has
  status 400; the status 404 thrown inside the transaction is replaced by the handler.
\<close>

theorem addToStock_missing_product_status:
  "addToStock ''P9'' \<lparr>sp_seller = ''S1'', sp_stock = 3\<rparr> ''U1'' (noFaults ''X'') widgetStore =
     (Inl (CustomError 400 ''Stock update failed: Product not found''), widgetStore)"
  by (simp add: addToStock_def addToStockTransaction_def findSeller_def findByIdAndUpdate_def
      noFaults_def widgetStore_def widget_def acme_def)

section \<open>Unresolved seller\<close>

text \<open>
  Claim C5. For every call of create whose seller reference does not resolve to a stored
  seller, nothing is committed: the store, and so its products and purchases, is unchanged;
  and the error that reaches the caller has status 400. When the payload passes the field
  validation and the lookup itself is carried out, that error is the invalid-seller error
  wrapped by the handler.
\<close>

theorem create_unresolved_seller:
  assumes "unresolved (seller payload) d"
  shows "snd (create payload userId eng d) = d \<and>
         (\<exists>m. fst (create payload userId eng d) = Inl (CustomError 400 m)) \<and>
         (\<not> missingRequired (removeEmptyFields payload) \<and> sellerFindError eng = None \<longrightarrow>
            fst (create payload userId eng d) =
              Inl (CustomError 400 ''Product create failed: Invalid seller ID provided''))"
proof -
  have "unresolved (seller ((removeEmptyFields payload)\<lparr>user := Some userId\<rparr>)) d"
    using unresolved_dropEmpty [OF assms] by (simp add: removeEmptyFields_def)
  from createTransaction_unresolved [OF this, of userId eng]
  show ?thesis
    using create_missing [of payload userId eng d] create_proceeds [of payload userId eng d]
    by (cases "missingRequired (removeEmptyFields payload)"; cases "sellerFindError eng")
      simp_all
qed

theorem create_unresolved_seller_witness:
  "unresolved (seller (widgetPayload\<lparr>seller := Some ''S7''\<rparr>)) emptyStore \<and>
   snd (create (widgetPayload\<lparr>seller := Some ''S7''\<rparr>) ''U1'' (noFaults ''P1'') emptyStore) =
     emptyStore \<and>
   fst (create (widgetPayload\<lparr>seller := Some ''S7''\<rparr>) ''U1'' (noFaults ''P1'') emptyStore) =
     Inl (CustomError 400 ''Product create failed: Invalid seller ID provided'')"
proof -
  have h: "unresolved (seller (widgetPayload\<lparr>seller := Some ''S7''\<rparr>)) emptyStore"
    by (simp add: unresolved_def emptyStore_def acme_def)
  have v: "\<not> missingRequired (removeEmptyFields (widgetPayload\<lparr>seller := Some ''S7''\<rparr>))"
    by (simp add: widgetPayload_def removeEmptyFields_def dropEmpty_def missingRequired_def
        falsyStr_def falsyNum_def)
  have e: "sellerFindError (noFaults ''P1'') = None"
    by (simp add: noFaults_def)
  from create_unresolved_seller [OF h, of "''U1''" "noFaults ''P1''"] h v e
  show ?thesis by simp
qed

section \<open>Stock levels\<close>

text \<open>
  Claim C6, as stated: along every sequence of create and addToStock operations that starts
  from non-negative stock, every product's stock stays non-negative. It fails: addToStock
  applies the delta without looking at it, and adding -10 to the widget with stock 5 commits
  a stock of -5.
\<close>

theorem addToStock_negative_stock_counterexample:
  "stockInvariant widgetStore \<and>
   \<not> stockInvariant
       (run [AddStock ''P1'' \<lparr>sp_seller = ''S1'', sp_stock = - 10\<rparr> ''U1'' (noFaults ''X'')]
          widgetStore)"
  by (simp add: stockInvariant_def run_def addToStock_def addToStockTransaction_def
      findSeller_def findByIdAndUpdate_def purchaseCreate_def commitTransaction_def
      noFaults_def widgetStore_def widget_def acme_def)

text \<open>
  Claim C6, amended. Starting from a store in which every product's stock is non-negative,
  every product's stock stays non-negative along every sequence of create and addToStock
  operations in which the delta of each addToStock is covered by the stock of the product it
  addresses at the time of the call (current stock plus delta is not negative). Nothing is
  asked of the create operations, and a decrease that the stock covers is admitted. The
  condition is the one the code forces: a successful addToStock keeps the stock levels
  non-negative if and only if its delta is covered.
\<close>

theorem stock_stays_non_negative:
  assumes "stockInvariant d"
  shows "(coveredDeltas rs d \<longrightarrow> stockInvariant (run rs d)) \<and>
         ((\<exists>r. fst (addToStock i payload userId eng d) = Inr r) \<longrightarrow>
            (stockInvariant (snd (addToStock i payload userId eng d)) \<longleftrightarrow>
             covered i (sp_stock payload) (products d)))"
proof
  have "stockInvariant d' \<Longrightarrow> coveredDeltas rs d' \<Longrightarrow> stockInvariant (fold perform rs d')"
    for d'
    by (induction rs arbitrary: d') (simp_all add: stockInvariant_perform)
  with assms show "coveredDeltas rs d \<longrightarrow> stockInvariant (run rs d)"
    by (simp add: run_def)
next
  show "(\<exists>r. fst (addToStock i payload userId eng d) = Inr r) \<longrightarrow>
          (stockInvariant (snd (addToStock i payload userId eng d)) \<longleftrightarrow>
           covered i (sp_stock payload) (products d))"
    using stockInvariant_addToStock [OF assms, of i payload userId eng]
      stockInvariant_addToStock_covered [of i payload userId eng d]
    by blast
qed

theorem stock_stays_non_negative_witness:
  "stockInvariant emptyStore \<and>
   coveredDeltas
     [CreateProduct widgetPayload ''U1'' (noFaults ''P1''),
      AddStock ''P1'' \<lparr>sp_seller = ''S1'', sp_stock = - 3\<rparr> ''U1'' (noFaults ''X'')]
     emptyStore \<and>
   stockInvariant
     (run [CreateProduct widgetPayload ''U1'' (noFaults ''P1''),
           AddStock ''P1'' \<lparr>sp_seller = ''S1'', sp_stock = - 3\<rparr> ''U1'' (noFaults ''X'')]
        emptyStore)"
proof -
  have i: "stockInvariant emptyStore"
    by (simp add: stockInvariant_def emptyStore_def)
  have n: "coveredDeltas
     [CreateProduct widgetPayload ''U1'' (noFaults ''P1''),
      AddStock ''P1'' \<lparr>sp_seller = ''S1'', sp_stock = - 3\<rparr> ''U1'' (noFaults ''X'')]
     emptyStore"
    by (simp add: create_widget covered_def) (simp add: widgetStore_def widget_def)
  from stock_stays_non_negative [OF i,
      of "[CreateProduct widgetPayload ''U1'' (noFaults ''P1''),
           AddStock ''P1'' \<lparr>sp_seller = ''S1'', sp_stock = - 3\<rparr> ''U1'' (noFaults ''X'')]"]
    i n
  show ?thesis by blast
qed

section \<open>Field validation\<close>

text \<open>
  Claim C7, as stated: create fails with the missing-field error if and only if, after the
  empty strings were stripped, one of name, price and seller is absent. It fails for the
  price 0: name, price and seller are all present after stripping, and the call fails with
  the missing-field error all the same.
\<close>

theorem create_zero_price_counterexample:
  "name (removeEmptyFields (widgetPayload\<lparr>price := Some 0\<rparr>)) = Some ''Widget'' \<and>
   price (removeEmptyFields (widgetPayload\<lparr>price := Some 0\<rparr>)) = Some 0 \<and>
   seller (removeEmptyFields (widgetPayload\<lparr>price := Some 0\<rparr>)) = Some ''S1'' \<and>
   create (widgetPayload\<lparr>price := Some 0\<rparr>) ''U1'' (noFaults ''P1'') emptyStore =
     (Inl (CustomError 400 ''Missing required fields: name, price, or seller''), emptyStore)"
  by (simp add: widgetPayload_def removeEmptyFields_def dropEmpty_def create_def
      missingRequired_def falsyStr_def falsyNum_def)

text \<open>
  Claim C7, amended. Create fails with the missing-field error if and only if, after the
  empty strings were stripped, name or seller is absent, or price is absent or is the
  number 0; in every other case the call proceeds to the transactional steps, and its
  outcome is that of the transaction.
\<close>

theorem create_missing_field_iff:
  "(fst (create payload userId eng d) =
      Inl (CustomError 400 ''Missing required fields: name, price, or seller'') \<longleftrightarrow>
    name (removeEmptyFields payload) = None \<or> price (removeEmptyFields payload) = None \<or>
    price (removeEmptyFields payload) = Some 0 \<or> seller (removeEmptyFields payload) = None) \<and>
   (\<not> (name (removeEmptyFields payload) = None \<or> price (removeEmptyFields payload) = None \<or>
       price (removeEmptyFields payload) = Some 0 \<or> seller (removeEmptyFields payload) = None) \<longrightarrow>
    create payload userId eng d =
      (case createTransaction ((removeEmptyFields payload)\<lparr>user := Some userId\<rparr>) userId eng d of
         Inl e \<Rightarrow> (Inl (CustomError 400 (''Product create failed: '' @ message e)), d)
       | Inr (created, d') \<Rightarrow> (Inr created, d')))"
  unfolding missingRequired_iff [symmetric]
  using create_missing [of payload userId eng d] create_proceeds [of payload userId eng d]
    create_proceeds_other_error [of payload userId eng d]
  by (cases "missingRequired (removeEmptyFields payload)") simp_all

theorem create_missing_field_iff_witness:
  "\<not> (name (removeEmptyFields widgetPayload) = None \<or>
      price (removeEmptyFields widgetPayload) = None \<or>
      price (removeEmptyFields widgetPayload) = Some 0 \<or>
      seller (removeEmptyFields widgetPayload) = None) \<and>
   fst (create widgetPayload ''U1'' (noFaults ''P1'') emptyStore) \<noteq>
     Inl (CustomError 400 ''Missing required fields: name, price, or seller'') \<and>
   create widgetPayload ''U1'' (noFaults ''P1'') emptyStore =
     (case createTransaction ((removeEmptyFields widgetPayload)\<lparr>user := Some ''U1''\<rparr>) ''U1''
        (noFaults ''P1'') emptyStore of
        Inl e \<Rightarrow> (Inl (CustomError 400 (''Product create failed: '' @ message e)), emptyStore)
      | Inr (created, d') \<Rightarrow> (Inr created, d'))"
proof -
  have h: "\<not> (name (removeEmptyFields widgetPayload) = None \<or>
      price (removeEmptyFields widgetPayload) = None \<or>
      price (removeEmptyFields widgetPayload) = Some 0 \<or>
      seller (removeEmptyFields widgetPayload) = None)"
    by (simp add: widgetPayload_def removeEmptyFields_def dropEmpty_def)
  from create_missing_field_iff [of widgetPayload "''U1''" "noFaults ''P1''" emptyStore] h
  show ?thesis by blast
qed

section \<open>Bulk delete leaves the ledger alone\<close>

text \<open>
  Claim C8. A bulk delete of any list of product ids, whether the engine carries it out or
  fails, leaves the purchase entries exactly as they were, those of the deleted products
  included; the sellers are untouched too, and no product appears that was not there.
\<close>

theorem bulkDelete_keeps_purchases:
  "purchases (snd (bulkDelete ids eng d)) = purchases d \<and>
   sellers (snd (bulkDelete ids eng d)) = sellers d \<and>
   set (products (snd (bulkDelete ids eng d))) \<subseteq> set (products d)"
  by (auto simp: bulkDelete_def split: option.splits)

section \<open>The acting user\<close>

text \<open>
  Claim C10. addToStock does not look at who the acting user is. For every existing product
  and any two user ids, the two calls return the same result (the same product or the same
  error) and leave the same products and sellers; the purchase entries they append differ in
  the recorded user only. The single-product read, in contrast, returns the product to its
  owning user and to nobody else.
\<close>

theorem addToStock_no_ownership_check:
  assumes "find (\<lambda>q. doc_id q = i) (products d) = Some p"
  shows "fst (addToStock i payload u1 eng d) = fst (addToStock i payload u2 eng d) \<and>
         products (snd (addToStock i payload u1 eng d)) =
           products (snd (addToStock i payload u2 eng d)) \<and>
         sellers (snd (addToStock i payload u1 eng d)) =
           sellers (snd (addToStock i payload u2 eng d)) \<and>
         purchases (snd (addToStock i payload u2 eng d)) =
           purchases d @ map (\<lambda>q. q\<lparr>pur_user := u2\<rparr>)
             (drop (length (purchases d)) (purchases (snd (addToStock i payload u1 eng d)))) \<and>
         (read i u d = Inr (Some p) \<longleftrightarrow> doc_user p = u)"
proof (cases "addToStockTransaction i payload u1 eng d")
  case (Inl e)
  from addToStockTransaction_Inl_user [OF Inl, of u2] Inl read_owner [OF assms, of u]
  show ?thesis by (simp add: addToStock_def)
next
  case (Inr r)
  obtain r1 d1 where r: "r = (r1, d1)" by (cases r)
  from addToStockTransaction_Inr [OF Inr [unfolded r]] obtain s :: Seller where
    f: "find (\<lambda>q. doc_id q = i) (products d) = Some r1"
       "find (\<lambda>x. seller_id x = sp_seller payload) (sellers d) = Some s" "healthy eng"
    and d1: "d1 = d\<lparr>products := incStock i (sp_stock payload) (products d),
            purchases := purchases d @
              [\<lparr>pur_user = u1, pur_seller = doc_seller r1, product = doc_id r1,
                sellerName = seller_name s, productName = doc_name r1,
                quantity = sp_stock payload, unitPrice = doc_price r1,
                totalPrice = sp_stock payload * doc_price r1\<rparr>]\<rparr>"
    by blast
  from addToStockTransaction_healthy [OF f, of u2] Inr r d1 read_owner [OF assms, of u]
  show ?thesis by (simp add: addToStock_def)
qed

theorem addToStock_no_ownership_check_witness:
  "find (\<lambda>q. doc_id q = ''P1'') (products widgetStore) = Some widget \<and>
   fst (addToStock ''P1'' \<lparr>sp_seller = ''S1'', sp_stock = 3\<rparr> ''U2'' (noFaults ''X'')
      widgetStore) = Inr widget \<and>
   products (snd (addToStock ''P1'' \<lparr>sp_seller = ''S1'', sp_stock = 3\<rparr> ''U2''
      (noFaults ''X'') widgetStore)) = [widget\<lparr>doc_stock := 8\<rparr>] \<and>
   read ''P1'' ''U1'' widgetStore = Inr (Some widget) \<and>
   read ''P1'' ''U2'' widgetStore \<noteq> Inr (Some widget)"
proof -
  have h: "find (\<lambda>q. doc_id q = ''P1'') (products widgetStore) = Some widget"
    by (simp add: widgetStore_def widget_def)
  have o: "doc_user widget = ''U1''"
    by (simp add: widget_def)
  from addToStock_no_ownership_check [OF h,
      of "\<lparr>sp_seller = ''S1'', sp_stock = 3\<rparr>" "''U1''" "noFaults ''X''" "''U2''" "''U1''"]
    addToStock_no_ownership_check [OF h,
      of "\<lparr>sp_seller = ''S1'', sp_stock = 3\<rparr>" "''U1''" "noFaults ''X''" "''U2''" "''U2''"]
    h o
  show ?thesis by (simp add: addToStock_widget)
qed

end
